theory Spec2Isabelle
  imports Complex_Main
begin

unbundle bit_operations_syntax

section \<open>Cosmology wrappers of mcfit: the model\<close>

text \<open>
  The module \<^verbatim>\<open>mcfit/cosmology.py\<close> defines six thin wrapper classes around two transform
  engines, \<^verbatim>\<open>mcfit\<close> (3D) and \<^verbatim>\<open>Hankel\<close> (2D), and around the kernel constructors of
  \<^verbatim>\<open>kernels\<close>. Neither engine nor the kernels are defined in this file of the repository,
  so every constructor below takes the engine it calls as a parameter, and a kernel is the
  symbolic handle of the constructor call that made it. The file imports \<^verbatim>\<open>mcfit\<close> and
  \<^verbatim>\<open>kernels\<close>; it does not import \<^verbatim>\<open>Hankel\<close>, so the constructors of the 2D wrappers take
  what that global name holds, which may be nothing.

  Numbers are read mathematically: a Python float is a real, a Python complex a complex
  number, a Python int an integer, and a numpy array of floats a list. Rounding, overflow
  and numpy's dtype rules are outside this model. Grids are positive (spec, data model), so
  the inverse of zero, where HOL and numpy differ, is never taken by a negative power.
\<close>

subsection \<open>Errors, factors and in-place arithmetic\<close>

text \<open>
  The exceptions that this file can see: an unbound name at module load, a duplicated
  keyword argument at a call site (\<^verbatim>\<open>TypeError\<close>), a shape mismatch in an in-place numpy
  operation (\<^verbatim>\<open>ValueError\<close>), and whatever the engine raises.
\<close>

datatype 'e error = NameError string | TypeError | ValueError | BaseError 'e

text \<open>
  \<^verbatim>\<open>prefac\<close> and \<^verbatim>\<open>postfac\<close> are a scalar or a one-dimensional array.
\<close>

datatype factor = Scalar complex | Array "complex list"

text \<open>
  \<^verbatim>\<open>a *= b\<close> and \<^verbatim>\<open>a /= b\<close>. A Python scalar on the left has no in-place operator, so the
  name is rebound to \<^verbatim>\<open>a * b\<close>, an array when \<^verbatim>\<open>b\<close> is one. An array on the left is
  updated in place and keeps its shape: the right operand must have the same length or
  length one, anything else raises.
\<close>

fun inplace :: "(complex \<Rightarrow> complex \<Rightarrow> complex) \<Rightarrow> factor \<Rightarrow> factor \<Rightarrow> 'e error + factor" where
  "inplace f (Scalar a) (Scalar b) = Inr (Scalar (f a b))"
| "inplace f (Scalar a) (Array bs) = Inr (Array (map (f a) bs))"
| "inplace f (Array as) (Scalar b) = Inr (Array (map (\<lambda>a. f a b) as))"
| "inplace f (Array as) (Array bs) =
     (if length bs = length as then Inr (Array (map2 f as bs))
      else if length bs = 1 then Inr (Array (map (\<lambda>a. f a (hd bs)) as))
      else Inl ValueError)"

text \<open>Reading a factor: its value at an index, and a function applied to every entry.\<close>

fun factor_at :: "factor \<Rightarrow> nat \<Rightarrow> complex" where
  "factor_at (Scalar a) i = a"
| "factor_at (Array as) i = as ! i"

fun factor_map :: "(complex \<Rightarrow> complex) \<Rightarrow> factor \<Rightarrow> factor" where
  "factor_map g (Scalar a) = Scalar (g a)"
| "factor_map g (Array as) = Array (map g as)"

text \<open>
  The shape invariant of the spec's data model: a factor is a broadcast scalar or an array
  as long as the grid.
\<close>

fun fits :: "factor \<Rightarrow> 'a list \<Rightarrow> bool" where
  "fits (Scalar a) xs = True"
| "fits (Array as) xs = (length as = length xs)"

subsection \<open>Kernels and engine objects\<close>

text \<open>
  The three kernel constructors of \<^verbatim>\<open>kernels\<close> that the file calls, with their arguments.
\<close>

datatype kernel =
    Mellin_SphericalBesselJ int int
  | Mellin_TophatSq int int
  | Mellin_GaussSq int

text \<open>
  What an engine's \<^verbatim>\<open>__init__\<close> leaves on \<^verbatim>\<open>self\<close>: the grids \<^verbatim>\<open>x\<close> and \<^verbatim>\<open>y\<close>, the two
  factors, and the rest of its state, which the wrappers never touch.
\<close>

record 'b transform =
  attr_x :: "real list"
  attr_y :: "real list"
  attr_prefac :: factor
  attr_postfac :: factor
  internals :: 'b

text \<open>A wrapper of the 3D engine that records its order \<^verbatim>\<open>l\<close>.\<close>

record 'b multipole =
  attr_l :: int
  engine :: "'b transform"

text \<open>A wrapper of the 2D engine, with its two angular grids.\<close>

record 'b angular =
  attr_ell :: "real list"
  attr_theta :: "real list"
  hankel :: "'b transform"

text \<open>Keyword arguments collected by \<^verbatim>\<open>**kwargs\<close>: a dictionary from names to values.\<close>

type_synonym 'v kwargs = "string \<rightharpoonup> 'v"

definition no_kwargs :: "'v kwargs" where
  "no_kwargs = Map.empty"

subsection \<open>The phase factor\<close>

text \<open>
  \<^verbatim>\<open>(-1 if l & 2 else 1) * (1j if l & 1 else 1)\<close>, on Python's unbounded integers.
\<close>

definition phase :: "int \<Rightarrow> complex" where
  "phase l = (if l AND 2 \<noteq> 0 then - 1 else 1) * (if l AND 1 \<noteq> 0 then \<i> else 1)"

text \<open>
  The spec's reading of it, a table on \<open>l mod 4\<close>; compared with \<open>phase\<close> below.
\<close>

definition phase_table :: "int \<Rightarrow> complex" where
  "phase_table l =
     (if l mod 4 = 0 then 1
      else if l mod 4 = 1 then \<i>
      else if l mod 4 = 2 then - 1
      else - \<i>)"

subsection \<open>Wrappers of the 3D engine\<close>

text \<open>
  The engine is called as \<^verbatim>\<open>mcfit.__init__(self, x, MK, q, **kwargs)\<close>: grid, kernel, tilt
  and the keyword dictionary, and returns the initialised object or raises.
\<close>

type_synonym ('e, 'b, 'v) mcfit_init =
  "real list \<Rightarrow> kernel \<Rightarrow> real \<Rightarrow> 'v kwargs \<Rightarrow> 'e error + 'b transform"

text \<open>
  \<^verbatim>\<open>P2xi.__init__(self, k, l=0, n=None, deriv=0, q=1.5, **kwargs)\<close>.
\<close>

definition P2xi_init ::
  "('e, 'b, 'v) mcfit_init \<Rightarrow> real list \<Rightarrow> int \<Rightarrow> int option \<Rightarrow> int \<Rightarrow> real \<Rightarrow> 'v kwargs
     \<Rightarrow> 'e error + 'b multipole" where
  "P2xi_init base k l n deriv q kwargs =
     (let MK = Mellin_SphericalBesselJ l deriv;
          (ph, n') = (case n of None \<Rightarrow> (phase l, 0) | Some m \<Rightarrow> (1, m))
      in case base k MK (q + real_of_int n') kwargs of
           Inl e \<Rightarrow> Inl e
         | Inr self \<Rightarrow>
            (case inplace (*) (attr_prefac self)
                    (Array (map (\<lambda>t. complex_of_real (t powi (3 + n') / (2 * pi) powr 1.5))
                              (attr_x self))) of
               Inl e \<Rightarrow> Inl e
             | Inr p \<Rightarrow>
                (case inplace (*) (attr_postfac self) (Scalar ph) of
                   Inl e \<Rightarrow> Inl e
                 | Inr p' \<Rightarrow>
                     Inr \<lparr>attr_l = l,
                          engine = self\<lparr>attr_prefac := p, attr_postfac := p'\<rparr>\<rparr>)))"

text \<open>
  \<^verbatim>\<open>xi2P.__init__(self, r, l=0, deriv=0, q=1.5, **kwargs)\<close>.
\<close>

definition xi2P_init ::
  "('e, 'b, 'v) mcfit_init \<Rightarrow> real list \<Rightarrow> int \<Rightarrow> int \<Rightarrow> real \<Rightarrow> 'v kwargs
     \<Rightarrow> 'e error + 'b multipole" where
  "xi2P_init base r l deriv q kwargs =
     (let MK = Mellin_SphericalBesselJ l deriv
      in case base r MK q kwargs of
           Inl e \<Rightarrow> Inl e
         | Inr self \<Rightarrow>
            (case inplace (*) (attr_prefac self)
                    (Array (map (\<lambda>t. complex_of_real (t ^ 3)) (attr_x self))) of
               Inl e \<Rightarrow> Inl e
             | Inr p \<Rightarrow>
                (let ph = phase l
                 in case inplace (*) (attr_postfac self)
                           (Scalar (complex_of_real ((2 * pi) powr 1.5) / ph)) of
                      Inl e \<Rightarrow> Inl e
                    | Inr p' \<Rightarrow>
                        Inr \<lparr>attr_l = l,
                             engine = self\<lparr>attr_prefac := p, attr_postfac := p'\<rparr>\<rparr>)))"

text \<open>
  \<^verbatim>\<open>TophatVar.__init__(self, k, deriv=0, q=1.5, **kwargs)\<close>.
\<close>

definition TophatVar_init ::
  "('e, 'b, 'v) mcfit_init \<Rightarrow> real list \<Rightarrow> int \<Rightarrow> real \<Rightarrow> 'v kwargs \<Rightarrow> 'e error + 'b transform" where
  "TophatVar_init base k deriv q kwargs =
     (let MK = Mellin_TophatSq 3 deriv
      in case base k MK q kwargs of
           Inl e \<Rightarrow> Inl e
         | Inr self \<Rightarrow>
            (case inplace (*) (attr_prefac self)
                    (Array (map (\<lambda>t. complex_of_real (t ^ 3 / (2 * pi\<^sup>2))) (attr_x self))) of
               Inl e \<Rightarrow> Inl e
             | Inr p \<Rightarrow> Inr (self\<lparr>attr_prefac := p\<rparr>)))"

text \<open>
  \<^verbatim>\<open>GaussVar.__init__(self, k, deriv=0, q=1.5, **kwargs)\<close>.
\<close>

definition GaussVar_init ::
  "('e, 'b, 'v) mcfit_init \<Rightarrow> real list \<Rightarrow> int \<Rightarrow> real \<Rightarrow> 'v kwargs \<Rightarrow> 'e error + 'b transform" where
  "GaussVar_init base k deriv q kwargs =
     (let MK = Mellin_GaussSq deriv
      in case base k MK q kwargs of
           Inl e \<Rightarrow> Inl e
         | Inr self \<Rightarrow>
            (case inplace (*) (attr_prefac self)
                    (Array (map (\<lambda>t. complex_of_real (t ^ 3 / (2 * pi\<^sup>2))) (attr_x self))) of
               Inl e \<Rightarrow> Inl e
             | Inr p \<Rightarrow> Inr (self\<lparr>attr_prefac := p\<rparr>)))"



subsection \<open>Wrappers of the 2D engine\<close>

text \<open>
  The 2D engine is called with keywords,
  \<^verbatim>\<open>Hankel.__init__(self, x=k, nu=nu, deriv=0, q=1, **kwargs)\<close>: the four named arguments
  are the four parameters here, and the dictionary is the rest. Python first reads the
  global name \<^verbatim>\<open>Hankel\<close>, which raises \<^verbatim>\<open>NameError\<close> when the name is unbound, then
  evaluates the arguments, and refuses the call with a \<^verbatim>\<open>TypeError\<close>, before the engine
  runs, when the dictionary repeats one of the names written out.
\<close>

type_synonym ('e, 'b, 'v) hankel_init =
  "real list \<Rightarrow> int \<Rightarrow> int \<Rightarrow> real \<Rightarrow> 'v kwargs \<Rightarrow> 'e error + 'b transform"

text \<open>
  The engine's call operator, \<^verbatim>\<open>__call__(F=..., **kwargs)\<close>: from the object, the input
  array and the keyword dictionary to the pair of output grid and output array.
\<close>

type_synonym ('e, 'b, 'v, 'a, 'w) hankel_call =
  "'b transform \<Rightarrow> 'a \<Rightarrow> 'v kwargs \<Rightarrow> 'e error + real list \<times> 'w"

definition repeats :: "string list \<Rightarrow> 'v kwargs \<Rightarrow> bool" where
  "repeats names kwargs = list_ex (\<lambda>name. kwargs name \<noteq> None) names"

text \<open>
  \<^verbatim>\<open>C2w.__init__(self, ell, nu=0, **kwargs)\<close>. The first argument is what the global name
  \<^verbatim>\<open>Hankel\<close> holds when line 114 runs: \<open>None\<close> when the name is unbound.
\<close>

definition C2w_init ::
  "('e, 'b, 'v) hankel_init option \<Rightarrow> real list \<Rightarrow> int \<Rightarrow> 'v kwargs \<Rightarrow> 'e error + 'b angular" where
  "C2w_init Hankel ell nu kwargs =
     (let k = map (\<lambda>t. t / 2 / pi) ell
      in case Hankel of
           None \<Rightarrow> Inl (NameError ''Hankel'')
         | Some Hankel_init \<Rightarrow>
            if repeats [''x'', ''nu'', ''deriv'', ''q''] kwargs then Inl TypeError
            else (case Hankel_init k nu 0 1 kwargs of
                   Inl e \<Rightarrow> Inl e
                 | Inr self \<Rightarrow>
                    (case inplace (*) (attr_postfac self) (Scalar (complex_of_real (2 * pi))) of
                       Inl e \<Rightarrow> Inl e
                     | Inr p' \<Rightarrow>
                         Inr \<lparr>attr_ell = ell,
                              attr_theta = map (\<lambda>t. t / 2 / pi) (attr_y self),
                              hankel = self\<lparr>attr_postfac := p'\<rparr>\<rparr>)))"

text \<open>\<^verbatim>\<open>C2w.__call__(self, C, **kwargs)\<close>.\<close>

definition C2w_call ::
  "('e, 'b, 'v, 'a, 'w) hankel_call \<Rightarrow> 'b angular \<Rightarrow> 'a \<Rightarrow> 'v kwargs
     \<Rightarrow> 'e error + real list \<times> 'w" where
  "C2w_call Hankel_call self C kwargs =
     (if repeats [''F''] kwargs then Inl TypeError
      else case Hankel_call (hankel self) C kwargs of
             Inl e \<Rightarrow> Inl e
           | Inr (r, w) \<Rightarrow> (let theta = map (\<lambda>t. t / 2 / pi) r in Inr (theta, w)))"

text \<open>
  \<^verbatim>\<open>w2C.__init__(self, theta, nu=0, **kwargs)\<close>, with the global name \<^verbatim>\<open>Hankel\<close> of line
  142 as the first argument.
\<close>

definition w2C_init ::
  "('e, 'b, 'v) hankel_init option \<Rightarrow> real list \<Rightarrow> int \<Rightarrow> 'v kwargs \<Rightarrow> 'e error + 'b angular" where
  "w2C_init Hankel theta nu kwargs =
     (let r = map (\<lambda>t. t * 2 * pi) theta
      in case Hankel of
           None \<Rightarrow> Inl (NameError ''Hankel'')
         | Some Hankel_init \<Rightarrow>
            if repeats [''x'', ''nu'', ''deriv'', ''q''] kwargs then Inl TypeError
            else (case Hankel_init r nu 0 1 kwargs of
                   Inl e \<Rightarrow> Inl e
                 | Inr self \<Rightarrow>
                    (case inplace (/) (attr_postfac self) (Scalar (complex_of_real (2 * pi))) of
                       Inl e \<Rightarrow> Inl e
                     | Inr p' \<Rightarrow>
                         Inr \<lparr>attr_ell = map (\<lambda>t. t * 2 * pi) (attr_y self),
                              attr_theta = theta,
                              hankel = self\<lparr>attr_postfac := p'\<rparr>\<rparr>)))"

text \<open>\<^verbatim>\<open>w2C.__call__(self, w, **kwargs)\<close>.\<close>

definition w2C_call ::
  "('e, 'b, 'v, 'a, 'w) hankel_call \<Rightarrow> 'b angular \<Rightarrow> 'a \<Rightarrow> 'v kwargs
     \<Rightarrow> 'e error + real list \<times> 'w" where
  "w2C_call Hankel_call self w kwargs =
     (if repeats [''F''] kwargs then Inl TypeError
      else case Hankel_call (hankel self) w kwargs of
             Inl e \<Rightarrow> Inl e
           | Inr (k, C) \<Rightarrow> (let ell = map (\<lambda>t. t * 2 * pi) k in Inr (ell, C)))"

text \<open>
  The relation that the spec states between the two angular grids of one object:
  \<open>ell = 2\<pi>\<cdot>theta\<close>, entry by entry.
\<close>

definition two_pi_times :: "real list \<Rightarrow> real list" where
  "two_pi_times theta = map (\<lambda>t. 2 * pi * t) theta"

definition ell_theta_related :: "'b angular \<Rightarrow> bool" where
  "ell_theta_related self = (attr_ell self = two_pi_times (attr_theta self))"

text \<open>
  Modelled from the spec: the 2D engine \<^verbatim>\<open>Hankel\<close> of the package is not in the source,
  and the file does not import it. This stand-in, for what the package would provide, has
  the contract of the spec's external interfaces: \<^verbatim>\<open>x\<close> echoes the grid argument, \<^verbatim>\<open>y\<close> is
  the conjugate grid, inversely related to \<^verbatim>\<open>x\<close> (the reciprocals in reverse order, which
  keeps it ordered), both factors start at the scalar one, and the order, derivative and
  tilt it was given are kept as its internal state.
\<close>

definition Hankel_reciprocal :: "(unit, int \<times> int \<times> real, unit) hankel_init" where
  "Hankel_reciprocal x nu deriv q kwargs =
     Inr \<lparr>attr_x = x, attr_y = map inverse (rev x),
          attr_prefac = Scalar 1, attr_postfac = Scalar 1, internals = (nu, deriv, q)\<rparr>"

text \<open>
  Modelled from the spec: the 3D engine \<^verbatim>\<open>mcfit\<close> and the engines' call operator are
  not in the source either. These stand-ins have the same contract: the engine echoes the
  grid, starts both factors at the scalar one and keeps the kernel and tilt it was given,
  the call returns the conjugate grid and
  an output array, here the input.
\<close>

definition mcfit_reciprocal :: "(unit, kernel \<times> real, unit) mcfit_init" where
  "mcfit_reciprocal x MK q kwargs =
     Inr \<lparr>attr_x = x, attr_y = map inverse (rev x),
          attr_prefac = Scalar 1, attr_postfac = Scalar 1, internals = (MK, q)\<rparr>"

definition call_identity :: "(unit, 'b, unit, 'a, 'a) hankel_call" where
  "call_identity self F kwargs = Inr (attr_y self, F)"

subsection \<open>Loading the module\<close>

text \<open>
  The statements at the top level of the file, as far as names go: an import binds the
  names it lists, an assignment binds its target after reading names, and a class statement
  evaluates its base-class expressions before it binds the class name. The bodies of the
  methods are not run at load, and their default values are literals.
\<close>

datatype stmt =
    FromImport string "string list"
  | Assign string "string list"
  | ClassDef string "string list"

text \<open>
  A name is looked up in the module's globals, then among the builtins. The first name
  that is not found raises \<^verbatim>\<open>NameError\<close>. The imports are taken to succeed.
\<close>

definition bound :: "(string \<Rightarrow> bool) \<Rightarrow> string list \<Rightarrow> string \<Rightarrow> bool" where
  "bound builtin globals name = (name \<in> set globals \<or> builtin name)"

fun exec_stmt :: "(string \<Rightarrow> bool) \<Rightarrow> string list \<Rightarrow> stmt \<Rightarrow> 'e error + string list" where
  "exec_stmt builtin globals (FromImport m names) = Inr (rev names @ globals)"
| "exec_stmt builtin globals (Assign target reads) =
     (case find (\<lambda>name. \<not> bound builtin globals name) reads of
        Some name \<Rightarrow> Inl (NameError name)
      | None \<Rightarrow> Inr (target # globals))"
| "exec_stmt builtin globals (ClassDef name bases) =
     (case find (\<lambda>name. \<not> bound builtin globals name) bases of
        Some b \<Rightarrow> Inl (NameError b)
      | None \<Rightarrow> Inr (name # globals))"

fun exec_module :: "(string \<Rightarrow> bool) \<Rightarrow> string list \<Rightarrow> stmt list \<Rightarrow> 'e error + string list" where
  "exec_module builtin globals [] = Inr globals"
| "exec_module builtin globals (s # ss) =
     (case exec_stmt builtin globals s of
        Inl e \<Rightarrow> Inl e
      | Inr globals' \<Rightarrow> exec_module builtin globals' ss)"

text \<open>The file, statement by statement (lines 3 to 5, 8, 11, 42, 63, 86, 101, 129).\<close>

definition cosmology :: "stmt list" where
  "cosmology =
     [FromImport ''mcfit.mcfit'' [''mcfit''],
      FromImport ''mcfit'' [''kernels''],
      FromImport ''numpy'' [''pi''],
      Assign ''__all__'' [],
      ClassDef ''P2xi'' [''mcfit''],
      ClassDef ''xi2P'' [''mcfit''],
      ClassDef ''TophatVar'' [''mcfit''],
      ClassDef ''GaussVar'' [''mcfit''],
      ClassDef ''C2w'' [''Hankel''],
      ClassDef ''w2C'' [''Hankel'']]"

text \<open>
  The names a fresh module starts with, and a few of Python's builtins, none of which is
  \<^verbatim>\<open>Hankel\<close>.
\<close>

definition module_globals :: "string list" where
  "module_globals =
     [''__name__'', ''__doc__'', ''__package__'', ''__loader__'', ''__spec__'',
      ''__file__'', ''__builtins__'']"

definition some_builtins :: "string \<Rightarrow> bool" where
  "some_builtins name =
     (name \<in> set [''object'', ''type'', ''int'', ''float'', ''complex'', ''super'', ''None''])"

definition six_classes :: "string list" where
  "six_classes = [''P2xi'', ''xi2P'', ''TophatVar'', ''GaussVar'', ''C2w'', ''w2C'']"

text \<open>
  Reading a global name while a method runs: the value the environment holds for it when the
  name is bound, nothing when it is not.
\<close>

definition global_name :: "(string \<Rightarrow> bool) \<Rightarrow> string list \<Rightarrow> string \<Rightarrow> 'h \<Rightarrow> 'h option" where
  "global_name builtin globals name held = (if bound builtin globals name then Some held else None)"

text \<open>
  Constructing an angular wrapper as a caller does,
  \<^verbatim>\<open>from mcfit.cosmology import C2w; C2w(ell, nu, **kwargs)\<close>: the file is loaded, and the
  constructor runs in the namespace that the load leaves. \<open>installed\<close> is the 2D engine of
  the installed package, which the name \<^verbatim>\<open>Hankel\<close> denotes only if something binds it.
\<close>

definition make_C2w ::
  "(string \<Rightarrow> bool) \<Rightarrow> string list \<Rightarrow> ('e, 'b, 'v) hankel_init \<Rightarrow> real list \<Rightarrow> int \<Rightarrow> 'v kwargs
     \<Rightarrow> 'e error + 'b angular" where
  "make_C2w builtin globals installed ell nu kwargs =
     (case exec_module builtin globals cosmology of
        Inl e \<Rightarrow> Inl e
      | Inr globals' \<Rightarrow>
          C2w_init (global_name builtin globals' ''Hankel'' installed) ell nu kwargs)"

definition make_w2C ::
  "(string \<Rightarrow> bool) \<Rightarrow> string list \<Rightarrow> ('e, 'b, 'v) hankel_init \<Rightarrow> real list \<Rightarrow> int \<Rightarrow> 'v kwargs
     \<Rightarrow> 'e error + 'b angular" where
  "make_w2C builtin globals installed theta nu kwargs =
     (case exec_module builtin globals cosmology of
        Inl e \<Rightarrow> Inl e
      | Inr globals' \<Rightarrow>
          w2C_init (global_name builtin globals' ''Hankel'' installed) theta nu kwargs)"

section \<open>Properties\<close>

subsection \<open>Bits of an integer\<close>

lemma and_1_int: "(l::int) AND 1 = l mod 2"
  by (simp add: and_one_eq)

lemma and_2_int: "(l::int) AND 2 = 2 * ((l div 2) mod 2)"
  by (subst and_int_unfold) (simp add: and_one_eq)

lemma mod4_split: "(l::int) mod 4 = 2 * ((l div 2) mod 2) + l mod 2"
  by presburger

lemma phase_eq_table: "phase l = phase_table l"
proof -
  have "l mod 2 = 0 \<or> l mod 2 = 1" by presburger
  moreover have "(l div 2) mod 2 = 0 \<or> (l div 2) mod 2 = 1" by presburger
  ultimately show ?thesis
    unfolding phase_def phase_table_def and_1_int and_2_int mod4_split
    by auto
qed

lemma phase_table_powi: "phase_table l = \<i> powi l"
proof -
  define m where "m = l div 4"
  define r where "r = l mod 4"
  have l: "l = 4 * m + r" by (simp add: m_def r_def)
  have r: "r = 0 \<or> r = 1 \<or> r = 2 \<or> r = 3" unfolding r_def by presburger
  have four: "\<i> powi (4 * m) = 1"
    by (simp add: power_int_mult)
  have "\<i> powi l = \<i> powi r" unfolding l by (simp add: power_int_add four)
  also have "\<dots> = phase_table l" using r unfolding phase_table_def r_def[symmetric]
    by (auto simp: power3_eq_cube power2_eq_square)
  finally show ?thesis by simp
qed

lemma phase_powi: "phase l = \<i> powi l"
  by (simp add: phase_eq_table phase_table_powi)

lemma phase_nonzero: "phase l \<noteq> 0"
  by (simp add: phase_powi)

subsection \<open>In-place arithmetic on factors\<close>

lemma inplace_by_scalar: "inplace f p (Scalar c) = Inr (factor_map (\<lambda>z. f z c) p)"
  by (cases p) simp_all

lemma factor_map_ident: "factor_map (\<lambda>z. z) p = p"
  by (cases p) simp_all

lemma map2_by_index:
  "length as = length bs \<Longrightarrow> map2 f as bs = map (\<lambda>i. f (as ! i) (bs ! i)) [0..<length bs]"
  by (rule nth_equalityI) simp_all

lemma map_by_index: "map g bs = map (\<lambda>i. g (bs ! i)) [0..<length bs]"
  by (rule nth_equalityI) simp_all

lemma inplace_fits:
  "fits p vs \<Longrightarrow>
     inplace f p (Array vs) = Inr (Array (map (\<lambda>i. f (factor_at p i) (vs ! i)) [0..<length vs]))"
proof (cases p)
  case (Scalar a)
  then show ?thesis using map_by_index [of "f a" vs] by simp
next
  case (Array as)
  assume "fits p vs"
  with Array have "length as = length vs" by simp
  with Array show ?thesis using map2_by_index [of as vs f] by simp
qed

subsection \<open>The 3D wrappers\<close>

text \<open>
  Claim C2. For every integer \<open>l\<close> from 0 to 7, the phase factor that \<^verbatim>\<open>P2xi\<close> (with
  \<^verbatim>\<open>n\<close> omitted) and \<^verbatim>\<open>xi2P\<close> compute from the two bit tests is \<open>\<i>\<^sup>l\<close>, the spec's table
  on \<open>l mod 4\<close>: \<^verbatim>\<open>P2xi\<close> without \<^verbatim>\<open>n\<close> multiplies the engine's \<^verbatim>\<open>postfac\<close> by the entry of the
  table, \<^verbatim>\<open>xi2P\<close> multiplies it by \<open>(2\<pi>)\<^bsup>1.5\<^esup>\<close> divided by that entry, and the entries for
  \<open>l = 0, \<dots>, 7\<close> are \<open>1, \<i>, -1, -\<i>\<close> twice, in that order.
\<close>

theorem phase_cycle:
  fixes base :: "('e, 'b, 'v) mcfit_init"
  assumes "0 \<le> l" and "l \<le> 7"
  shows "phase l = phase_table l \<and> phase l = \<i> ^ nat l
       \<and> map phase [0, 1, 2, 3, 4, 5, 6, 7] = [1, \<i>, - 1, - \<i>, 1, \<i>, - 1, - \<i>]
       \<and> map phase_table [0, 1, 2, 3, 4, 5, 6, 7] = [1, \<i>, - 1, - \<i>, 1, \<i>, - 1, - \<i>]
       \<and> P2xi_init base k l None deriv q kw =
           (case base k (Mellin_SphericalBesselJ l deriv) q kw of
              Inl e \<Rightarrow> Inl e
            | Inr b \<Rightarrow>
                (case inplace (*) (attr_prefac b)
                        (Array (map (\<lambda>t. complex_of_real (t ^ 3 / (2 * pi) powr 1.5))
                                  (attr_x b))) of
                   Inl e \<Rightarrow> Inl e
                 | Inr p \<Rightarrow>
                     Inr \<lparr>attr_l = l,
                          engine = b\<lparr>attr_prefac := p,
                                     attr_postfac :=
                                       factor_map (\<lambda>z. z * phase_table l) (attr_postfac b)\<rparr>\<rparr>))
       \<and> xi2P_init base k l deriv q kw =
           (case base k (Mellin_SphericalBesselJ l deriv) q kw of
              Inl e \<Rightarrow> Inl e
            | Inr b \<Rightarrow>
                (case inplace (*) (attr_prefac b)
                        (Array (map (\<lambda>t. complex_of_real (t ^ 3)) (attr_x b))) of
                   Inl e \<Rightarrow> Inl e
                 | Inr p \<Rightarrow>
                     Inr \<lparr>attr_l = l,
                          engine = b\<lparr>attr_prefac := p,
                                     attr_postfac :=
                                       factor_map
                                         (\<lambda>z. z * (complex_of_real ((2 * pi) powr 1.5) / phase_table l))
                                         (attr_postfac b)\<rparr>\<rparr>))"
proof -
  have "phase l = \<i> ^ nat l" using assms by (simp add: phase_powi power_int_def)
  moreover have "map phase [0, 1, 2, 3, 4, 5, 6, 7] = [1, \<i>, - 1, - \<i>, 1, \<i>, - 1, - \<i>]"
    by (simp add: phase_eq_table phase_table_def)
  moreover have "map phase_table [0, 1, 2, 3, 4, 5, 6, 7] = [1, \<i>, - 1, - \<i>, 1, \<i>, - 1, - \<i>]"
    by (simp add: phase_table_def)
  moreover have "P2xi_init base k l None deriv q kw =
           (case base k (Mellin_SphericalBesselJ l deriv) q kw of
              Inl e \<Rightarrow> Inl e
            | Inr b \<Rightarrow>
                (case inplace (*) (attr_prefac b)
                        (Array (map (\<lambda>t. complex_of_real (t ^ 3 / (2 * pi) powr 1.5))
                                  (attr_x b))) of
                   Inl e \<Rightarrow> Inl e
                 | Inr p \<Rightarrow>
                     Inr \<lparr>attr_l = l,
                          engine = b\<lparr>attr_prefac := p,
                                     attr_postfac :=
                                       factor_map (\<lambda>z. z * phase_table l) (attr_postfac b)\<rparr>\<rparr>))"
    by (simp add: P2xi_init_def inplace_by_scalar phase_eq_table split: sum.splits)
  moreover have "xi2P_init base k l deriv q kw =
           (case base k (Mellin_SphericalBesselJ l deriv) q kw of
              Inl e \<Rightarrow> Inl e
            | Inr b \<Rightarrow>
                (case inplace (*) (attr_prefac b)
                        (Array (map (\<lambda>t. complex_of_real (t ^ 3)) (attr_x b))) of
                   Inl e \<Rightarrow> Inl e
                 | Inr p \<Rightarrow>
                     Inr \<lparr>attr_l = l,
                          engine = b\<lparr>attr_prefac := p,
                                     attr_postfac :=
                                       factor_map
                                         (\<lambda>z. z * (complex_of_real ((2 * pi) powr 1.5) / phase_table l))
                                         (attr_postfac b)\<rparr>\<rparr>))"
    by (simp add: xi2P_init_def inplace_by_scalar phase_eq_table split: sum.splits)
  ultimately show ?thesis by (simp only: phase_eq_table simp_thms)
qed

theorem phase_cycle_witness:
  "(0::int) \<le> 3 \<and> (3::int) \<le> 7 \<and> phase 3 = - \<i>
   \<and> P2xi_init mcfit_reciprocal [1, 2] 3 None 0 1.5 no_kwargs
       = Inr \<lparr>attr_l = 3,
              engine = \<lparr>attr_x = [1, 2], attr_y = [1 / 2, 1],
                        attr_prefac = Array [complex_of_real (1 / (2 * pi) powr 1.5),
                                             complex_of_real (8 / (2 * pi) powr 1.5)],
                        attr_postfac = Scalar (- \<i>),
                        internals = (Mellin_SphericalBesselJ 3 0, 3 / 2)\<rparr>\<rparr>
   \<and> xi2P_init mcfit_reciprocal [1, 2] 3 0 1.5 no_kwargs
       = Inr \<lparr>attr_l = 3,
              engine = \<lparr>attr_x = [1, 2], attr_y = [1 / 2, 1],
                        attr_prefac = Array [1, 8],
                        attr_postfac = Scalar (complex_of_real ((2 * pi) powr 1.5) / (- \<i>)),
                        internals = (Mellin_SphericalBesselJ 3 0, 3 / 2)\<rparr>\<rparr>"
  using phase_cycle [of 3 mcfit_reciprocal "[1, 2]" 0 "1.5" no_kwargs]
  by (simp add: phase_table_def mcfit_reciprocal_def)

lemma scaled_prefac:
  assumes "fits p xs"
  shows "\<exists>r. inplace (*) p (Array (map g xs)) = (Inr r :: 'e error + factor)
           \<and> (\<forall>i < length xs. factor_at r i = factor_at p i * g (xs ! i))"
proof -
  let ?r = "Array (map (\<lambda>i. factor_at p i * map g xs ! i) [0..<length (map g xs)])"
  from assms have "fits p (map g xs)" by (cases p) simp_all
  then have "inplace (*) p (Array (map g xs)) = (Inr ?r :: 'e error + factor)"
    by (rule inplace_fits)
  moreover have "\<forall>i < length xs. factor_at ?r i = factor_at p i * g (xs ! i)"
    by simp
  ultimately show ?thesis by blast
qed

text \<open>
  Claim C3. With \<^verbatim>\<open>n\<close> supplied, \<^verbatim>\<open>P2xi\<close> hands the engine the grid, the spherical Bessel
  kernel of \<open>(l, deriv)\<close>, the tilt \<open>q + n\<close> and the keyword dictionary; an error of the
  engine is passed on; otherwise \<^verbatim>\<open>prefac\<close> is multiplied in place by
  \<open>x\<^bsup>3+n\<^esup> / (2\<pi>)\<^bsup>1.5\<^esup>\<close> and \<^verbatim>\<open>postfac\<close> by the phase 1, which leaves it as the engine set
  it. When the engine's \<^verbatim>\<open>prefac\<close> is a scalar or an array as long as \<^verbatim>\<open>x\<close>, the constructor
  succeeds and the product holds entry by entry. For \<open>l = 2\<close>, \<open>n = 1\<close> the tilt is
  \<open>q + 1\<close> and the multiplier \<open>x\<^sup>4 / (2\<pi>)\<^bsup>1.5\<^esup>\<close>.
\<close>

theorem P2xi_supplied_n:
  fixes base :: "('e, 'b, 'v) mcfit_init"
  shows
  "P2xi_init base k l (Some n) deriv q kw =
     (case base k (Mellin_SphericalBesselJ l deriv) (q + real_of_int n) kw of
        Inl e \<Rightarrow> Inl e
      | Inr b \<Rightarrow>
          (case inplace (*) (attr_prefac b)
                  (Array (map (\<lambda>t. complex_of_real (t powi (3 + n) / (2 * pi) powr 1.5))
                            (attr_x b))) of
             Inl e \<Rightarrow> Inl e
           | Inr p \<Rightarrow> Inr \<lparr>attr_l = l, engine = b\<lparr>attr_prefac := p\<rparr>\<rparr>))
   \<and> (\<forall>b. base k (Mellin_SphericalBesselJ l deriv) (q + real_of_int n) kw = Inr b
            \<and> fits (attr_prefac b) (attr_x b) \<longrightarrow>
          (\<exists>self. P2xi_init base k l (Some n) deriv q kw = Inr self
             \<and> attr_l self = l
             \<and> attr_postfac (engine self) = attr_postfac b
             \<and> (\<forall>i < length (attr_x b).
                   factor_at (attr_prefac (engine self)) i =
                   factor_at (attr_prefac b) i
                     * complex_of_real (attr_x b ! i powi (3 + n) / (2 * pi) powr 1.5))))
   \<and> (\<forall>b. l = 2 \<and> n = 1 \<and> base k (Mellin_SphericalBesselJ 2 deriv) (q + 1) kw = Inr b
            \<and> fits (attr_prefac b) (attr_x b) \<longrightarrow>
          (\<exists>self. P2xi_init base k l (Some n) deriv q kw = Inr self
             \<and> attr_postfac (engine self) = attr_postfac b
             \<and> (\<forall>i < length (attr_x b).
                   factor_at (attr_prefac (engine self)) i =
                   factor_at (attr_prefac b) i
                     * complex_of_real ((attr_x b ! i) ^ 4 / (2 * pi) powr 1.5))))"
  (is "?eq \<and> ?pointwise \<and> ?example")
proof -
  have eq: ?eq
    by (simp add: P2xi_init_def inplace_by_scalar factor_map_ident split: sum.splits)
  have pw: ?pointwise
  proof (intro allI impI, elim conjE)
    fix b
    assume b: "base k (Mellin_SphericalBesselJ l deriv) (q + real_of_int n) kw = Inr b"
      and f: "fits (attr_prefac b) (attr_x b)"
    let ?g = "\<lambda>t. complex_of_real (t powi (3 + n) / (2 * pi) powr 1.5)"
    from scaled_prefac [OF f, of ?g] obtain r
      where r: "inplace (*) (attr_prefac b) (Array (map ?g (attr_x b))) = (Inr r :: 'e error + factor)"
        and at: "\<forall>i < length (attr_x b). factor_at r i = factor_at (attr_prefac b) i * ?g (attr_x b ! i)"
      by blast
    have "P2xi_init base k l (Some n) deriv q kw
            = Inr \<lparr>attr_l = l, engine = b\<lparr>attr_prefac := r\<rparr>\<rparr>"
      by (simp only: eq b r sum.case)
    with at show
      "\<exists>self. P2xi_init base k l (Some n) deriv q kw = Inr self
             \<and> attr_l self = l
             \<and> attr_postfac (engine self) = attr_postfac b
             \<and> (\<forall>i < length (attr_x b).
                   factor_at (attr_prefac (engine self)) i =
                   factor_at (attr_prefac b) i
                     * complex_of_real (attr_x b ! i powi (3 + n) / (2 * pi) powr 1.5))"
      by simp
  qed
  have ex: ?example
  proof (intro allI impI, elim conjE)
    fix b
    assume l: "l = 2" and n: "n = 1"
      and b: "base k (Mellin_SphericalBesselJ 2 deriv) (q + 1) kw = Inr b"
      and f: "fits (attr_prefac b) (attr_x b)"
    from b l n have "base k (Mellin_SphericalBesselJ l deriv) (q + real_of_int n) kw = Inr b"
      by simp
    with pw f obtain self where "P2xi_init base k l (Some n) deriv q kw = Inr self"
      and "attr_postfac (engine self) = attr_postfac b"
      and "\<forall>i < length (attr_x b).
                   factor_at (attr_prefac (engine self)) i =
                   factor_at (attr_prefac b) i
                     * complex_of_real (attr_x b ! i powi (3 + n) / (2 * pi) powr 1.5)"
      by blast
    then show
      "\<exists>self. P2xi_init base k l (Some n) deriv q kw = Inr self
             \<and> attr_postfac (engine self) = attr_postfac b
             \<and> (\<forall>i < length (attr_x b).
                   factor_at (attr_prefac (engine self)) i =
                   factor_at (attr_prefac b) i
                     * complex_of_real ((attr_x b ! i) ^ 4 / (2 * pi) powr 1.5))"
      using n by auto
  qed
  from eq pw ex show ?thesis by blast
qed


theorem P2xi_supplied_n_witness:
  "fits (Scalar 1) [1::real, 2]
   \<and> mcfit_reciprocal [1, 2] (Mellin_SphericalBesselJ 2 0) (1.5 + 1) no_kwargs
       = Inr \<lparr>attr_x = [1, 2], attr_y = [1 / 2, 1], attr_prefac = Scalar 1,
              attr_postfac = Scalar 1,
              internals = (Mellin_SphericalBesselJ 2 0, 5 / 2)\<rparr>
   \<and> P2xi_init mcfit_reciprocal [1, 2] 2 (Some 1) 0 1.5 no_kwargs
       = Inr \<lparr>attr_l = 2,
              engine = \<lparr>attr_x = [1, 2], attr_y = [1 / 2, 1],
                        attr_prefac = Array [complex_of_real (1 / (2 * pi) powr 1.5),
                                             complex_of_real (16 / (2 * pi) powr 1.5)],
                        attr_postfac = Scalar 1,
                        internals = (Mellin_SphericalBesselJ 2 0, 5 / 2)\<rparr>\<rparr>"
  using P2xi_supplied_n [of mcfit_reciprocal "[1, 2]" 2 1 0 "1.5" no_kwargs]
  by (simp add: mcfit_reciprocal_def)

text \<open>
  Claim C4. \<^verbatim>\<open>xi2P\<close> has no parameter \<^verbatim>\<open>n\<close>. It hands the engine the grid, the spherical
  Bessel kernel of \<open>(l, deriv)\<close>, the tilt \<open>q\<close> as given and the keyword dictionary; then it
  multiplies \<^verbatim>\<open>prefac\<close> by \<open>x\<^sup>3\<close> and \<^verbatim>\<open>postfac\<close> by \<open>(2\<pi>)\<^bsup>1.5\<^esup> / \<i>\<^sup>l\<close>, for every
  \<open>l\<close>.
\<close>

theorem xi2P_contract:
  fixes base :: "('e, 'b, 'v) mcfit_init"
  shows
  "xi2P_init base r l deriv q kw =
     (case base r (Mellin_SphericalBesselJ l deriv) q kw of
        Inl e \<Rightarrow> Inl e
      | Inr b \<Rightarrow>
          (case inplace (*) (attr_prefac b)
                  (Array (map (\<lambda>t. complex_of_real (t ^ 3)) (attr_x b))) of
             Inl e \<Rightarrow> Inl e
           | Inr p \<Rightarrow>
               Inr \<lparr>attr_l = l,
                    engine = b\<lparr>attr_prefac := p,
                               attr_postfac :=
                                 factor_map (\<lambda>z. z * (complex_of_real ((2 * pi) powr 1.5) / \<i> powi l))
                                   (attr_postfac b)\<rparr>\<rparr>))
   \<and> (\<forall>b. base r (Mellin_SphericalBesselJ l deriv) q kw = Inr b
            \<and> fits (attr_prefac b) (attr_x b) \<longrightarrow>
          (\<exists>self. xi2P_init base r l deriv q kw = Inr self
             \<and> attr_l self = l
             \<and> attr_postfac (engine self) =
                 factor_map (\<lambda>z. z * (complex_of_real ((2 * pi) powr 1.5) / \<i> powi l))
                   (attr_postfac b)
             \<and> (\<forall>i < length (attr_x b).
                   factor_at (attr_prefac (engine self)) i =
                   factor_at (attr_prefac b) i * complex_of_real ((attr_x b ! i) ^ 3))))"
  (is "?eq \<and> ?pointwise")
proof -
  have eq: ?eq
    by (simp add: xi2P_init_def inplace_by_scalar phase_powi split: sum.splits)
  have pw: ?pointwise
  proof (intro allI impI, elim conjE)
    fix b
    assume b: "base r (Mellin_SphericalBesselJ l deriv) q kw = Inr b"
      and f: "fits (attr_prefac b) (attr_x b)"
    let ?g = "\<lambda>t. complex_of_real (t ^ 3)"
    from scaled_prefac [OF f, of ?g] obtain p
      where p: "inplace (*) (attr_prefac b) (Array (map ?g (attr_x b))) = (Inr p :: 'e error + factor)"
        and at: "\<forall>i < length (attr_x b). factor_at p i = factor_at (attr_prefac b) i * ?g (attr_x b ! i)"
      by blast
    have "xi2P_init base r l deriv q kw
            = Inr \<lparr>attr_l = l,
                   engine = b\<lparr>attr_prefac := p,
                              attr_postfac :=
                                factor_map (\<lambda>z. z * (complex_of_real ((2 * pi) powr 1.5) / \<i> powi l))
                                  (attr_postfac b)\<rparr>\<rparr>"
      by (simp only: eq b p sum.case)
    with at show
      "\<exists>self. xi2P_init base r l deriv q kw = Inr self
             \<and> attr_l self = l
             \<and> attr_postfac (engine self) =
                 factor_map (\<lambda>z. z * (complex_of_real ((2 * pi) powr 1.5) / \<i> powi l))
                   (attr_postfac b)
             \<and> (\<forall>i < length (attr_x b).
                   factor_at (attr_prefac (engine self)) i =
                   factor_at (attr_prefac b) i * complex_of_real ((attr_x b ! i) ^ 3))"
      by simp
  qed
  from eq pw show ?thesis by blast
qed

theorem xi2P_contract_witness:
  "fits (Scalar 1) [1::real, 2]
   \<and> mcfit_reciprocal [1, 2] (Mellin_SphericalBesselJ 1 0) 1.5 no_kwargs
       = Inr \<lparr>attr_x = [1, 2], attr_y = [1 / 2, 1], attr_prefac = Scalar 1,
              attr_postfac = Scalar 1,
              internals = (Mellin_SphericalBesselJ 1 0, 3 / 2)\<rparr>
   \<and> xi2P_init mcfit_reciprocal [1, 2] 1 0 1.5 no_kwargs
       = Inr \<lparr>attr_l = 1,
              engine = \<lparr>attr_x = [1, 2], attr_y = [1 / 2, 1],
                        attr_prefac = Array [1, 8],
                        attr_postfac = Scalar (complex_of_real ((2 * pi) powr 1.5) / \<i>),
                        internals = (Mellin_SphericalBesselJ 1 0, 3 / 2)\<rparr>\<rparr>"
  using xi2P_contract [of mcfit_reciprocal "[1, 2]" 1 0 "1.5" no_kwargs]
  by (simp add: mcfit_reciprocal_def)

text \<open>
  Claim C8. \<^verbatim>\<open>TophatVar\<close> and \<^verbatim>\<open>GaussVar\<close> hand the engine the grid, the tilt \<open>q\<close> as given
  and the keyword dictionary, the first with the squared top-hat kernel of shape exponent 3,
  the second with the squared Gaussian kernel; both multiply \<^verbatim>\<open>prefac\<close> by
  \<open>x\<^sup>3 / (2\<pi>\<^sup>2)\<close> and leave \<^verbatim>\<open>postfac\<close> as the engine set it.
\<close>

theorem variance_wrappers:
  fixes base :: "('e, 'b, 'v) mcfit_init"
  shows
  "TophatVar_init base k deriv q kw =
     (case base k (Mellin_TophatSq 3 deriv) q kw of
        Inl e \<Rightarrow> Inl e
      | Inr b \<Rightarrow>
          (case inplace (*) (attr_prefac b)
                  (Array (map (\<lambda>t. complex_of_real (t ^ 3 / (2 * pi\<^sup>2))) (attr_x b))) of
             Inl e \<Rightarrow> Inl e
           | Inr p \<Rightarrow> Inr (b\<lparr>attr_prefac := p\<rparr>)))
   \<and> GaussVar_init base k deriv q kw =
     (case base k (Mellin_GaussSq deriv) q kw of
        Inl e \<Rightarrow> Inl e
      | Inr b \<Rightarrow>
          (case inplace (*) (attr_prefac b)
                  (Array (map (\<lambda>t. complex_of_real (t ^ 3 / (2 * pi\<^sup>2))) (attr_x b))) of
             Inl e \<Rightarrow> Inl e
           | Inr p \<Rightarrow> Inr (b\<lparr>attr_prefac := p\<rparr>)))
   \<and> (\<forall>b. base k (Mellin_TophatSq 3 deriv) q kw = Inr b \<and> fits (attr_prefac b) (attr_x b) \<longrightarrow>
          (\<exists>self. TophatVar_init base k deriv q kw = Inr self
             \<and> attr_postfac self = attr_postfac b
             \<and> (\<forall>i < length (attr_x b).
                   factor_at (attr_prefac self) i =
                   factor_at (attr_prefac b) i
                     * complex_of_real ((attr_x b ! i) ^ 3 / (2 * pi\<^sup>2)))))
   \<and> (\<forall>b. base k (Mellin_GaussSq deriv) q kw = Inr b \<and> fits (attr_prefac b) (attr_x b) \<longrightarrow>
          (\<exists>self. GaussVar_init base k deriv q kw = Inr self
             \<and> attr_postfac self = attr_postfac b
             \<and> (\<forall>i < length (attr_x b).
                   factor_at (attr_prefac self) i =
                   factor_at (attr_prefac b) i
                     * complex_of_real ((attr_x b ! i) ^ 3 / (2 * pi\<^sup>2)))))"
  (is "?top \<and> ?gauss \<and> ?top_pointwise \<and> ?gauss_pointwise")
proof -
  let ?g = "\<lambda>t. complex_of_real (t ^ 3 / (2 * pi\<^sup>2))"
  have top: ?top by (simp add: TophatVar_init_def)
  have gauss: ?gauss by (simp add: GaussVar_init_def)
  have tpw: ?top_pointwise
  proof (intro allI impI, elim conjE)
    fix b
    assume b: "base k (Mellin_TophatSq 3 deriv) q kw = Inr b"
      and f: "fits (attr_prefac b) (attr_x b)"
    from scaled_prefac [OF f, of ?g] obtain p
      where p: "inplace (*) (attr_prefac b) (Array (map ?g (attr_x b))) = (Inr p :: 'e error + factor)"
        and at: "\<forall>i < length (attr_x b). factor_at p i = factor_at (attr_prefac b) i * ?g (attr_x b ! i)"
      by blast
    have "TophatVar_init base k deriv q kw = Inr (b\<lparr>attr_prefac := p\<rparr>)"
      by (simp only: top b p sum.case)
    with at show
      "\<exists>self. TophatVar_init base k deriv q kw = Inr self
             \<and> attr_postfac self = attr_postfac b
             \<and> (\<forall>i < length (attr_x b).
                   factor_at (attr_prefac self) i =
                   factor_at (attr_prefac b) i
                     * complex_of_real ((attr_x b ! i) ^ 3 / (2 * pi\<^sup>2)))"
      by simp
  qed
  have gpw: ?gauss_pointwise
  proof (intro allI impI, elim conjE)
    fix b
    assume b: "base k (Mellin_GaussSq deriv) q kw = Inr b"
      and f: "fits (attr_prefac b) (attr_x b)"
    from scaled_prefac [OF f, of ?g] obtain p
      where p: "inplace (*) (attr_prefac b) (Array (map ?g (attr_x b))) = (Inr p :: 'e error + factor)"
        and at: "\<forall>i < length (attr_x b). factor_at p i = factor_at (attr_prefac b) i * ?g (attr_x b ! i)"
      by blast
    have "GaussVar_init base k deriv q kw = Inr (b\<lparr>attr_prefac := p\<rparr>)"
      by (simp only: gauss b p sum.case)
    with at show
      "\<exists>self. GaussVar_init base k deriv q kw = Inr self
             \<and> attr_postfac self = attr_postfac b
             \<and> (\<forall>i < length (attr_x b).
                   factor_at (attr_prefac self) i =
                   factor_at (attr_prefac b) i
                     * complex_of_real ((attr_x b ! i) ^ 3 / (2 * pi\<^sup>2)))"
      by simp
  qed
  from top gauss tpw gpw show ?thesis by blast
qed

theorem variance_wrappers_witness:
  "fits (Scalar 1) [1::real, 2]
   \<and> mcfit_reciprocal [1, 2] (Mellin_TophatSq 3 0) 1.5 no_kwargs
       = Inr \<lparr>attr_x = [1, 2], attr_y = [1 / 2, 1], attr_prefac = Scalar 1,
              attr_postfac = Scalar 1, internals = (Mellin_TophatSq 3 0, 3 / 2)\<rparr>
   \<and> TophatVar_init mcfit_reciprocal [1, 2] 0 1.5 no_kwargs
       = Inr \<lparr>attr_x = [1, 2], attr_y = [1 / 2, 1],
              attr_prefac = Array [complex_of_real (1 / (2 * pi\<^sup>2)),
                                   complex_of_real (8 / (2 * pi\<^sup>2))],
              attr_postfac = Scalar 1, internals = (Mellin_TophatSq 3 0, 3 / 2)\<rparr>
   \<and> GaussVar_init mcfit_reciprocal [1, 2] 0 1.5 no_kwargs
       = Inr \<lparr>attr_x = [1, 2], attr_y = [1 / 2, 1],
              attr_prefac = Array [complex_of_real (1 / (2 * pi\<^sup>2)),
                                   complex_of_real (8 / (2 * pi\<^sup>2))],
              attr_postfac = Scalar 1, internals = (Mellin_GaussSq 0, 3 / 2)\<rparr>"
  using variance_wrappers [of mcfit_reciprocal "[1, 2]" 0 "1.5" no_kwargs]
  by (simp add: mcfit_reciprocal_def)

subsection \<open>Supplying \<open>n = 0\<close> against omitting \<open>n\<close>\<close>






subsection \<open>Loading the module\<close>

lemma load_fails_without_Hankel:
  assumes "\<not> builtin ''Hankel''" and "''Hankel'' \<notin> set globals"
  shows "exec_module builtin globals cosmology = Inl (NameError ''Hankel'')"
  using assms by (simp add: cosmology_def bound_def)

lemma load_first_four_classes:
  "exec_module builtin globals (take 8 cosmology)
     = Inr ([''GaussVar'', ''TophatVar'', ''xi2P'', ''P2xi'', ''__all__'', ''pi'', ''kernels'', ''mcfit'']
            @ globals)"
  by (simp add: cosmology_def bound_def)

lemma load_with_Hankel_bound:
  "exec_module builtin globals (FromImport ''mcfit'' [''Hankel''] # cosmology)
     = Inr (rev six_classes @ [''__all__'', ''pi'', ''kernels'', ''mcfit'', ''Hankel''] @ globals)"
  by (simp add: cosmology_def bound_def six_classes_def)

text \<open>
  Claim C1 says that all six classes can be constructed, every name of the class statements
  being bound at load. The file never binds \<^verbatim>\<open>Hankel\<close>: loading it binds the four wrappers
  of the 3D engine and then stops at \<^verbatim>\<open>class C2w(Hankel)\<close> with a \<^verbatim>\<open>NameError\<close>, so the
  import fails and no class of the module can be reached. With \<^verbatim>\<open>Hankel\<close> imported first,
  the same statements bind all six.
\<close>

theorem cosmology_load_fails:
  "exec_module some_builtins module_globals cosmology = Inl (NameError ''Hankel'')"
  by (rule load_fails_without_Hankel) (simp_all add: some_builtins_def module_globals_def)

subsection \<open>The 2D wrappers\<close>

lemma repeats_dom: "repeats names kw \<longleftrightarrow> set names \<inter> dom kw \<noteq> {}"
  by (auto simp: repeats_def list_ex_iff dom_def)

lemma global_name_unbound:
  assumes "\<not> builtin name" and "name \<notin> set globals"
  shows "global_name builtin globals name held = None"
  using assms by (simp add: global_name_def bound_def)

lemma C2w_init_unbound: "C2w_init None ell nu kw = Inl (NameError ''Hankel'')"
  by (simp add: C2w_init_def)

lemma w2C_init_unbound: "w2C_init None theta nu kw = Inl (NameError ''Hankel'')"
  by (simp add: w2C_init_def)

lemma make_C2w_unbound:
  fixes installed :: "('e, 'b, 'v) hankel_init"
  assumes "\<not> builtin ''Hankel''" and "''Hankel'' \<notin> set globals"
  shows "make_C2w builtin globals installed ell nu kw = Inl (NameError ''Hankel'')"
proof -
  have "exec_module builtin globals cosmology = (Inl (NameError ''Hankel'') :: 'e error + string list)"
    by (rule load_fails_without_Hankel) fact+
  then show ?thesis by (simp add: make_C2w_def)
qed

lemma make_w2C_unbound:
  fixes installed :: "('e, 'b, 'v) hankel_init"
  assumes "\<not> builtin ''Hankel''" and "''Hankel'' \<notin> set globals"
  shows "make_w2C builtin globals installed theta nu kw = Inl (NameError ''Hankel'')"
proof -
  have "exec_module builtin globals cosmology = (Inl (NameError ''Hankel'') :: 'e error + string list)"
    by (rule load_fails_without_Hankel) fact+
  then show ?thesis by (simp add: make_w2C_def)
qed

lemma no_angular_object:
  assumes "\<not> builtin ''Hankel''" and "''Hankel'' \<notin> set globals"
  shows "make_C2w builtin globals installed ell nu kw \<noteq> Inr self"
    and "make_w2C builtin globals installed theta nu kw \<noteq> Inr self"
  using make_C2w_unbound [of builtin globals installed ell nu kw]
    make_w2C_unbound [of builtin globals installed theta nu kw] assms
  by simp_all

text \<open>
  What the two bodies do once the name \<^verbatim>\<open>Hankel\<close> resolves to an engine: the grid is
  rescaled by \<open>2\<pi>\<close>, the derivative is 0 and the tilt 1, a dictionary that names \<^verbatim>\<open>x\<close>,
  \<^verbatim>\<open>nu\<close>, \<^verbatim>\<open>deriv\<close> or \<^verbatim>\<open>q\<close> again is refused, \<^verbatim>\<open>postfac\<close> is rescaled by \<open>2\<pi>\<close>, and the
  call operators pass the dictionary on and rescale the returned grid.
\<close>

lemma C2w_init_bound:
  fixes Hankel :: "('e, 'b, 'v) hankel_init"
  shows
  "C2w_init (Some Hankel) ell nu kw =
     (if {''x'', ''nu'', ''deriv'', ''q''} \<inter> dom kw \<noteq> {} then Inl TypeError
      else case Hankel (map (\<lambda>t. t / (2 * pi)) ell) nu 0 1 kw of
             Inl e \<Rightarrow> Inl e
           | Inr b \<Rightarrow>
               Inr \<lparr>attr_ell = ell,
                    attr_theta = map (\<lambda>t. t / (2 * pi)) (attr_y b),
                    hankel = b\<lparr>attr_postfac :=
                                 factor_map (\<lambda>z. z * complex_of_real (2 * pi)) (attr_postfac b)\<rparr>\<rparr>)"
  unfolding C2w_init_def repeats_dom
  by (simp add: inplace_by_scalar split: sum.splits)

lemma C2w_call_forwards:
  fixes Hankel_call :: "('e, 'b, 'v, 'a, 'w) hankel_call"
  shows
  "C2w_call Hankel_call self C kw =
     (if ''F'' \<in> dom kw then Inl TypeError
      else case Hankel_call (hankel self) C kw of
             Inl e \<Rightarrow> Inl e
           | Inr (r, w) \<Rightarrow> Inr (map (\<lambda>t. t / (2 * pi)) r, w))"
  unfolding C2w_call_def repeats_dom
  by (simp split: sum.splits prod.splits)

lemma w2C_init_bound:
  fixes Hankel :: "('e, 'b, 'v) hankel_init"
  shows
  "w2C_init (Some Hankel) theta nu kw =
     (if {''x'', ''nu'', ''deriv'', ''q''} \<inter> dom kw \<noteq> {} then Inl TypeError
      else case Hankel (map (\<lambda>t. t * (2 * pi)) theta) nu 0 1 kw of
             Inl e \<Rightarrow> Inl e
           | Inr b \<Rightarrow>
               Inr \<lparr>attr_ell = map (\<lambda>t. t * (2 * pi)) (attr_y b),
                    attr_theta = theta,
                    hankel = b\<lparr>attr_postfac :=
                                 factor_map (\<lambda>z. z / complex_of_real (2 * pi)) (attr_postfac b)\<rparr>\<rparr>)"
  unfolding w2C_init_def repeats_dom
  by (simp add: inplace_by_scalar mult.assoc split: sum.splits)

lemma w2C_call_forwards:
  fixes Hankel_call :: "('e, 'b, 'v, 'a, 'w) hankel_call"
  shows
  "w2C_call Hankel_call self w kw =
     (if ''F'' \<in> dom kw then Inl TypeError
      else case Hankel_call (hankel self) w kw of
             Inl e \<Rightarrow> Inl e
           | Inr (k, C) \<Rightarrow> Inr (map (\<lambda>t. t * (2 * pi)) k, C))"
  unfolding w2C_call_def repeats_dom
  by (simp add: mult.assoc split: sum.splits prod.splits)

lemma C2w_init_bound_on_1_2:
  "C2w_init (Some Hankel_reciprocal) [1, 2] 0 no_kwargs
     = Inr \<lparr>attr_ell = [1, 2], attr_theta = [1 / 2, 1],
            hankel = \<lparr>attr_x = [1 / (2 * pi), 1 / pi], attr_y = [pi, 2 * pi],
                      attr_prefac = Scalar 1,
                      attr_postfac = Scalar (complex_of_real (2 * pi)),
                      internals = (0, 0, 1)\<rparr>\<rparr>"
  by (simp add: C2w_init_def Hankel_reciprocal_def no_kwargs_def repeats_def)

lemma w2C_init_bound_on_1_2:
  "w2C_init (Some Hankel_reciprocal) [1, 2] 0 no_kwargs
     = Inr \<lparr>attr_ell = [1 / 2, 1], attr_theta = [1, 2],
            hankel = \<lparr>attr_x = [2 * pi, 4 * pi], attr_y = [1 / (4 * pi), 1 / (2 * pi)],
                      attr_prefac = Scalar 1,
                      attr_postfac = Scalar (1 / complex_of_real (2 * pi)),
                      internals = (0, 0, 1)\<rparr>\<rparr>"
  by (simp add: w2C_init_def Hankel_reciprocal_def no_kwargs_def repeats_def inverse_eq_divide)

lemma C2w_call_on_3_4:
  "C2w_call call_identity
     \<lparr>attr_ell = [1, 2], attr_theta = [1 / 2, 1],
      hankel = \<lparr>attr_x = [1 / (2 * pi), 1 / pi], attr_y = [pi, 2 * pi],
                attr_prefac = Scalar 1,
                attr_postfac = Scalar (complex_of_real (2 * pi)),
                internals = (0 :: int, 0 :: int, 1 :: real)\<rparr>\<rparr>
     [3 :: real, 4] (no_kwargs :: unit kwargs)
   = (Inr ([1 / 2, 1], [3, 4]) :: unit error + real list \<times> real list)"
  by (simp add: C2w_call_def call_identity_def no_kwargs_def repeats_def)

text \<open>
  Claim C5 says that the \<^verbatim>\<open>C2w\<close> constructor builds the 2D engine on \<open>ell / (2\<pi>)\<close> with
  order \<open>nu\<close>, derivative 0 and tilt 1, rescales \<^verbatim>\<open>postfac\<close> and stores \<^verbatim>\<open>ell\<close> and
  \<^verbatim>\<open>theta\<close>. In the file as it is, with a working 2D engine installed, constructing a
  \<^verbatim>\<open>C2w\<close> on the grid \<open>[1, 2]\<close> raises \<^verbatim>\<open>NameError\<close>: the load stops at the class statement,
  and in the namespace that the statements before it leave, the body stops at the same
  unbound name before any engine is called. It is the defect of claim C1.
\<close>

theorem C2w_construction_fails:
  "make_C2w some_builtins module_globals Hankel_reciprocal [1, 2] 0 no_kwargs
     = Inl (NameError ''Hankel'')
   \<and> exec_module some_builtins module_globals (take 8 cosmology)
       = (Inr ([''GaussVar'', ''TophatVar'', ''xi2P'', ''P2xi'', ''__all__'', ''pi'', ''kernels'',
                ''mcfit''] @ module_globals) :: unit error + string list)
   \<and> C2w_init
        (global_name some_builtins
           ([''GaussVar'', ''TophatVar'', ''xi2P'', ''P2xi'', ''__all__'', ''pi'', ''kernels'',
             ''mcfit''] @ module_globals)
           ''Hankel'' Hankel_reciprocal)
        [1, 2] 0 no_kwargs
       = Inl (NameError ''Hankel'')"
proof -
  have b: "\<not> some_builtins ''Hankel''" by (simp add: some_builtins_def)
  have g: "''Hankel'' \<notin> set module_globals" by (simp add: module_globals_def)
  have g': "''Hankel'' \<notin> set ([''GaussVar'', ''TophatVar'', ''xi2P'', ''P2xi'', ''__all__'', ''pi'',
                                ''kernels'', ''mcfit''] @ module_globals)"
    by (simp add: module_globals_def)
  show ?thesis
    by (simp only: make_C2w_unbound [of some_builtins module_globals, OF b g] load_first_four_classes
          global_name_unbound [of some_builtins "''Hankel''" _ Hankel_reciprocal, OF b g'] C2w_init_unbound simp_thms)
qed

text \<open>
  Claim C6 says that the \<^verbatim>\<open>w2C\<close> constructor builds the 2D engine on \<open>theta \<cdot> 2\<pi>\<close>, divides
  \<^verbatim>\<open>postfac\<close> by \<open>2\<pi>\<close> and stores \<^verbatim>\<open>theta\<close> and \<^verbatim>\<open>ell\<close>. In the file as it is, constructing
  a \<^verbatim>\<open>w2C\<close> on the grid \<open>[1, 2]\<close> raises \<^verbatim>\<open>NameError\<close>, at load and again in the body, for
  the same unbound name: the defect of claim C1.
\<close>

theorem w2C_construction_fails:
  "make_w2C some_builtins module_globals Hankel_reciprocal [1, 2] 0 no_kwargs
     = Inl (NameError ''Hankel'')
   \<and> exec_module some_builtins module_globals (take 8 cosmology)
       = (Inr ([''GaussVar'', ''TophatVar'', ''xi2P'', ''P2xi'', ''__all__'', ''pi'', ''kernels'',
                ''mcfit''] @ module_globals) :: unit error + string list)
   \<and> w2C_init
        (global_name some_builtins
           ([''GaussVar'', ''TophatVar'', ''xi2P'', ''P2xi'', ''__all__'', ''pi'', ''kernels'',
             ''mcfit''] @ module_globals)
           ''Hankel'' Hankel_reciprocal)
        [1, 2] 0 no_kwargs
       = Inl (NameError ''Hankel'')"
proof -
  have b: "\<not> some_builtins ''Hankel''" by (simp add: some_builtins_def)
  have g: "''Hankel'' \<notin> set module_globals" by (simp add: module_globals_def)
  have g': "''Hankel'' \<notin> set ([''GaussVar'', ''TophatVar'', ''xi2P'', ''P2xi'', ''__all__'', ''pi'',
                                ''kernels'', ''mcfit''] @ module_globals)"
    by (simp add: module_globals_def)
  show ?thesis
    by (simp only: make_w2C_unbound [of some_builtins module_globals, OF b g] load_first_four_classes
          global_name_unbound [of some_builtins "''Hankel''" _ Hankel_reciprocal, OF b g'] w2C_init_unbound simp_thms)
qed

subsection \<open>The two angular grids, were the name bound\<close>

lemma two_pi_times_inject: "two_pi_times xs = two_pi_times ys \<longleftrightarrow> xs = ys"
proof -
  have "inj (\<lambda>t::real. 2 * pi * t)" by (simp add: inj_on_def)
  then show ?thesis unfolding two_pi_times_def by (rule inj_map_eq_map)
qed

lemma two_pi_times_divided: "two_pi_times (map (\<lambda>t. t / 2 / pi) ys) = ys"
  by (simp add: two_pi_times_def o_def)

lemma times_two_pi: "map (\<lambda>t. t * 2 * pi) ys = two_pi_times ys"
  by (simp add: two_pi_times_def mult.commute mult.left_commute)

text \<open>
  No object of either class exists in the file as it is (\<open>no_angular_object\<close>). In the
  bodies run with \<^verbatim>\<open>Hankel\<close> bound to an engine, \<^verbatim>\<open>ell\<close> and \<^verbatim>\<open>theta\<close> are the constructor's
  grid and the rescaled conjugate grid of the engine.
\<close>

lemma angular_grids_bound:
  fixes Hankel :: "('e, 'b, 'v) hankel_init"
  shows
  "(C2w_init (Some Hankel) ell nu kw = Inr self \<longrightarrow>
      (\<exists>b. Hankel (map (\<lambda>t. t / (2 * pi)) ell) nu 0 1 kw = Inr b
          \<and> attr_ell self = ell
          \<and> two_pi_times (attr_theta self) = attr_y b
          \<and> (ell_theta_related self \<longleftrightarrow> attr_y b = ell)))
   \<and> (w2C_init (Some Hankel) theta nu kw = Inr self' \<longrightarrow>
      (\<exists>b. Hankel (two_pi_times theta) nu 0 1 kw = Inr b
          \<and> attr_theta self' = theta
          \<and> attr_ell self' = two_pi_times (attr_y b)
          \<and> (ell_theta_related self' \<longleftrightarrow> attr_y b = theta)))"
proof (intro conjI impI)
  assume "C2w_init (Some Hankel) ell nu kw = Inr self"
  then obtain b where b: "Hankel (map (\<lambda>t. t / 2 / pi) ell) nu 0 1 kw = Inr b"
    and ell: "attr_ell self = ell"
    and theta: "attr_theta self = map (\<lambda>t. t / 2 / pi) (attr_y b)"
    by (auto simp: C2w_init_def inplace_by_scalar split: if_splits sum.splits)
  from b have "Hankel (map (\<lambda>t. t / (2 * pi)) ell) nu 0 1 kw = Inr b" by simp
  moreover from theta have "two_pi_times (attr_theta self) = attr_y b"
    by (simp only: two_pi_times_divided)
  moreover from this ell have "ell_theta_related self \<longleftrightarrow> attr_y b = ell"
    unfolding ell_theta_related_def by auto
  ultimately show "\<exists>b. Hankel (map (\<lambda>t. t / (2 * pi)) ell) nu 0 1 kw = Inr b
          \<and> attr_ell self = ell
          \<and> two_pi_times (attr_theta self) = attr_y b
          \<and> (ell_theta_related self \<longleftrightarrow> attr_y b = ell)"
    using ell by blast
next
  assume "w2C_init (Some Hankel) theta nu kw = Inr self'"
  then obtain b where b: "Hankel (map (\<lambda>t. t * 2 * pi) theta) nu 0 1 kw = Inr b"
    and theta: "attr_theta self' = theta"
    and ell: "attr_ell self' = map (\<lambda>t. t * 2 * pi) (attr_y b)"
    by (auto simp: w2C_init_def inplace_by_scalar split: if_splits sum.splits)
  from b have "Hankel (two_pi_times theta) nu 0 1 kw = Inr b" by (simp only: times_two_pi)
  moreover from ell have e: "attr_ell self' = two_pi_times (attr_y b)"
    by (simp only: times_two_pi)
  moreover from e theta have "ell_theta_related self' \<longleftrightarrow> attr_y b = theta"
    unfolding ell_theta_related_def by (simp add: two_pi_times_inject)
  ultimately show "\<exists>b. Hankel (two_pi_times theta) nu 0 1 kw = Inr b
          \<and> attr_theta self' = theta
          \<and> attr_ell self' = two_pi_times (attr_y b)
          \<and> (ell_theta_related self' \<longleftrightarrow> attr_y b = theta)"
    using theta by blast
qed

end
